theory Spec2Isabelle
  imports Main
begin

section \<open>Alerting abilities (useAbilities.ts)\<close>

subsection \<open>Action catalogs\<close>

text \<open>
  The three TypeScript enums of useAbilities.ts. Within each enum the string values of
  the members are pairwise different, so an object literal keyed by the members of one
  enum has one entry per member; such a table is a function from the enum.
\<close>

datatype AlertmanagerAction =
    ViewExternalConfiguration
  | UpdateExternalConfiguration
  | CreateContactPoint
  | ViewContactPoint
  | UpdateContactPoint
  | DeleteContactPoint
  | ExportContactPoint
  | CreateNotificationTemplate
  | ViewNotificationTemplate
  | UpdateNotificationTemplate
  | DeleteNotificationTemplate
  | DecryptSecrets
  | CreateNotificationPolicy
  | ViewNotificationPolicyTree
  | UpdateNotificationPolicyTree
  | DeleteNotificationPolicy
  | ExportNotificationPolicies
  | CreateSilence
  | ViewSilence
  | UpdateSilence
  | ViewMuteTiming
  | CreateMuteTiming
  | UpdateMuteTiming
  | DeleteMuteTiming

datatype AlertRuleAction =
    Duplicate
  | View
  | Update
  | Delete
  | Explore
  | Silence
  | ModifyExport

datatype AlertingAction =
    CreateAlertRule
  | ViewAlertRule
  | UpdateAlertRule
  | DeleteAlertRule
  | ExportGrafanaManagedRules
  | CreateExternalAlertRule
  | ViewExternalAlertRule
  | UpdateExternalAlertRule
  | DeleteExternalAlertRule

definition AlwaysSupported :: bool where
  "AlwaysSupported = True"

definition NotSupported :: bool where
  "NotSupported = False"

text \<open>\<open>Ability = [actionSupported, actionAllowed]\<close>; \<open>Abilities<T> = Record<T, Ability>\<close>.\<close>

type_synonym Ability = "bool \<times> bool"

type_synonym 'a Abilities = "'a \<Rightarrow> Ability"

subsection \<open>Imported declarations\<close>

text \<open>
  Modelled from the spec: the enum \<open>AccessControlAction\<close> (app/types) is not among the
  sources. The spec calls its members opaque permission identifiers. The members that
  useAbilities.ts names are constructors; every other member is
  \<open>OtherAccessControlAction\<close> with its identifier.
\<close>

datatype AccessControlAction =
    AlertingRuleCreate
  | AlertingRuleRead
  | AlertingRuleUpdate
  | AlertingRuleDelete
  | AlertingRuleExternalWrite
  | AlertingRuleExternalRead
  | DataSourcesExplore
  | AlertingNotificationsExternalRead
  | AlertingNotificationsExternalWrite
  | AlertingInstanceCreate
  | OtherAccessControlAction string

text \<open>
  Modelled from the spec: the result types of \<open>getRulesPermissions\<close>,
  \<open>getInstancesPermissions\<close> and \<open>getNotificationsPermissions\<close> (utils/access-control) are
  not among the sources. The fields are the ones useAbilities.ts reads: create, read,
  update, delete, and for notifications \<open>provisioning.readSecrets\<close>.
\<close>

record Permissions =
  read :: AccessControlAction
  create :: AccessControlAction
  update :: AccessControlAction
  delete :: AccessControlAction

record ProvisioningPermissions =
  readSecrets :: AccessControlAction

record NotificationsPermissions = Permissions +
  provisioning :: ProvisioningPermissions

text \<open>
  Modelled from the spec: \<open>AlertmanagerChoice\<close> (plugins/datasource/alertmanager/types) is
  not among the sources; the spec lists the routing choices All, Internal and External.
\<close>

datatype AlertmanagerChoice = ChoiceInternal | ChoiceExternal | ChoiceAll

record AlertmanagersChoiceResponse =
  alertmanagersChoice :: AlertmanagerChoice

text \<open>
  Modelled from the spec: the result type of \<open>useGetAlertmanagerChoiceStatusQuery\<close>
  (api/alertmanagerApi) is not among the sources. The spec gives the routing choice and a
  loading flag; \<open>useCanSilence\<close> reads them as \<open>currentData?.alertmanagersChoice\<close>, where
  \<open>currentData\<close> may be undefined, and \<open>isLoading\<close>.
\<close>

record ChoiceStatusQuery =
  currentData :: "AlertmanagersChoiceResponse option"
  isLoading :: bool

text \<open>
  Modelled from the spec: the result type of \<open>useIsRuleEditable\<close> (hooks/useIsRuleEditable)
  is not among the sources. The spec gives it as
  \<open>{ isEditable?: bool, isRemovable?: bool, isRulerAvailable?: bool, loading: bool }\<close>.
\<close>

record IsRuleEditableResult =
  isEditable :: "bool option"
  isRemovable :: "bool option"
  isRulerAvailable :: "bool option"
  loading :: bool

text \<open>
  Modelled from the spec: the result type of \<open>useAlertmanager\<close> (state/AlertmanagerContext)
  is not among the sources. The spec gives the selected alertmanager identifier, the
  \<open>hasConfigurationAPI\<close> flag and the Grafana-flavored flag; these are the three fields
  that \<open>useAllAlertmanagerAbilities\<close> reads. \<open>selectedAlertmanager\<close> may be undefined (the
  source asserts it with \<open>!\<close>, which is erased at run time).
\<close>

record AlertmanagerContext =
  selectedAlertmanager :: "string option"
  hasConfigurationAPI :: bool
  isGrafanaAlertmanager :: bool

text \<open>
  Modelled from the spec: \<open>RulesSource\<close> (types/unified-alerting) is not among the
  sources. The spec's source identifier is the built-in engine or a named external
  source; line 143 tells a string from a settings object with a \<open>name\<close> by \<open>typeof\<close>.
\<close>

datatype DataSourceInstanceSettings = DataSourceInstanceSettings (name: string)

datatype RulesSource =
    RulesSourceString string
  | RulesSourceSettings DataSourceInstanceSettings

text \<open>
  Modelled from the spec: the ruler rule types (types/unified-alerting-dto) are not among
  the sources. A ruler rule is a Grafana managed rule, which carries \<open>grafana_alert\<close> with
  an optional \<open>provenance\<close> string (the spec's provenance flag), or a rule of another kind,
  which has no \<open>grafana_alert\<close>.
\<close>

record GrafanaRuleDefinition =
  provenance :: "string option"

datatype RulerRuleDTO =
    RulerGrafanaRuleDTO GrafanaRuleDefinition
  | RulerCloudRuleDTO

record CombinedRuleNamespace =
  rulesSource :: RulesSource

text \<open>
  Modelled from the spec: \<open>CombinedRule\<close> (types/unified-alerting) is not among the
  sources. These are the fields that \<open>useAllAlertRuleAbilities\<close> reads:
  \<open>namespace.rulesSource\<close>, the optional \<open>rulerRule\<close>, and \<open>group\<close>. The rule group is only
  handed to \<open>isFederatedRuleGroup\<close>, so its type is a parameter.
\<close>

record 'g CombinedRule =
  namespace :: CombinedRuleNamespace
  rulerRule :: "RulerRuleDTO option"
  group :: 'g

subsection \<open>Collaborators\<close>

text \<open>
  The functions, hooks and constants that useAbilities.ts imports and that are not among
  the sources are parameters of the model: the permission check \<open>ctx.hasPermission\<close>, the
  three permission tables of utils/access-control, the constant
  \<open>GRAFANA_RULES_SOURCE_NAME\<close>, \<open>isFederatedRuleGroup\<close>, and the hooks
  \<open>useIsRuleEditable\<close>, \<open>useGetAlertmanagerChoiceStatusQuery\<close> (a function of its
  \<open>skip\<close> option) and \<open>useAlertmanager\<close>. One value of this record is one snapshot of
  the context in which the hooks of useAbilities.ts run.
\<close>

record 'g Collaborators =
  hasPermission :: "AccessControlAction \<Rightarrow> bool"
  getRulesPermissions :: "string \<Rightarrow> Permissions"
  getNotificationsPermissions :: "string option \<Rightarrow> NotificationsPermissions"
  getInstancesPermissions :: "string option \<Rightarrow> Permissions"
  GRAFANA_RULES_SOURCE_NAME :: string
  isFederatedRuleGroup :: "'g \<Rightarrow> bool"
  useIsRuleEditable :: "string \<Rightarrow> RulerRuleDTO option \<Rightarrow> IsRuleEditableResult"
  useGetAlertmanagerChoiceStatusQuery :: "bool \<Rightarrow> ChoiceStatusQuery"
  useAlertmanager :: AlertmanagerContext

text \<open>
  Modelled from the spec: \<open>isGrafanaRulerRule\<close> (utils/rules) is not among the sources. It
  is the type guard under which line 145 reads \<open>rule.rulerRule.grafana_alert\<close>: it holds
  for a ruler rule that is defined and is a Grafana managed one (the spec's rule of the
  built-in engine, the only kind with a provenance flag).
\<close>

fun isGrafanaRulerRule :: "RulerRuleDTO option \<Rightarrow> bool" where
  "isGrafanaRulerRule (Some (RulerGrafanaRuleDTO g)) = True"
| "isGrafanaRulerRule (Some RulerCloudRuleDTO) = False"
| "isGrafanaRulerRule None = False"

subsection \<open>JavaScript operators\<close>

text \<open>Reading a property of \<open>undefined\<close> throws a TypeError.\<close>

datatype error = TypeError

text \<open>
  The property chain \<open>rulerRule.grafana_alert.provenance\<close>: it throws when \<open>rulerRule\<close> is
  undefined, and when \<open>grafana_alert\<close> is (a rule of another kind).
\<close>

fun grafana_alert_provenance :: "RulerRuleDTO option \<Rightarrow> error + string option" where
  "grafana_alert_provenance None = Inl TypeError"
| "grafana_alert_provenance (Some RulerCloudRuleDTO) = Inl TypeError"
| "grafana_alert_provenance (Some (RulerGrafanaRuleDTO g)) = Inr (provenance g)"

text \<open>\<open>Boolean(s)\<close> for an optional string: undefined and the empty string are falsy.\<close>

fun Boolean :: "string option \<Rightarrow> bool" where
  "Boolean None = False"
| "Boolean (Some s) = (s \<noteq> [])"

text \<open>\<open>a ?? b\<close> for an optional value.\<close>

fun nullish :: "'a option \<Rightarrow> 'a \<Rightarrow> 'a" where
  "nullish None b = b"
| "nullish (Some a) b = a"

subsection \<open>The hooks\<close>

definition toAbility :: "'g Collaborators \<Rightarrow> bool \<Rightarrow> AccessControlAction \<Rightarrow> Ability" where
  "toAbility ctx supported action = (supported, hasPermission ctx action)"

definition useAlertingAbilities :: "'g Collaborators \<Rightarrow> AlertingAction Abilities" where
  "useAlertingAbilities ctx = (\<lambda>action. case action of
      CreateAlertRule \<Rightarrow> toAbility ctx AlwaysSupported AlertingRuleCreate
    | ViewAlertRule \<Rightarrow> toAbility ctx AlwaysSupported AlertingRuleRead
    | UpdateAlertRule \<Rightarrow> toAbility ctx AlwaysSupported AlertingRuleUpdate
    | DeleteAlertRule \<Rightarrow> toAbility ctx AlwaysSupported AlertingRuleDelete
    | ExportGrafanaManagedRules \<Rightarrow> toAbility ctx AlwaysSupported AlertingRuleRead
    | CreateExternalAlertRule \<Rightarrow> toAbility ctx AlwaysSupported AlertingRuleExternalWrite
    | ViewExternalAlertRule \<Rightarrow> toAbility ctx AlwaysSupported AlertingRuleExternalRead
    | UpdateExternalAlertRule \<Rightarrow> toAbility ctx AlwaysSupported AlertingRuleExternalWrite
    | DeleteExternalAlertRule \<Rightarrow> toAbility ctx AlwaysSupported AlertingRuleExternalWrite)"

definition useAlertingAbility :: "'g Collaborators \<Rightarrow> AlertingAction \<Rightarrow> Ability" where
  "useAlertingAbility ctx action = (let allAbilities = useAlertingAbilities ctx in allAbilities action)"

definition useCanSilence :: "'g Collaborators \<Rightarrow> RulesSource \<Rightarrow> Ability" where
  "useCanSilence ctx source =
    (let isGrafanaManagedRule = (source = RulesSourceString (GRAFANA_RULES_SOURCE_NAME ctx));
         query = useGetAlertmanagerChoiceStatusQuery ctx (\<not> isGrafanaManagedRule);
         amConfigStatus = currentData query
     in if \<not> isGrafanaManagedRule \<or> isLoading query then (False, False)
        else
          let interactsOnlyWithExternalAMs =
                (map_option alertmanagersChoice amConfigStatus = Some ChoiceExternal);
              interactsWithAll =
                (map_option alertmanagersChoice amConfigStatus = Some ChoiceAll);
              silenceSupported = (\<not> interactsOnlyWithExternalAMs \<or> interactsWithAll)
          in toAbility ctx silenceSupported AlertingInstanceCreate)"

text \<open>
  Line 143: \<open>typeof rulesSource === 'string' ? rulesSource : rulesSource.name\<close>.
\<close>

fun rulesSourceNameOf :: "RulesSource \<Rightarrow> string" where
  "rulesSourceNameOf (RulesSourceString s) = s"
| "rulesSourceNameOf (RulesSourceSettings settings) = name settings"

text \<open>
  Line 145: \<open>isGrafanaRulerRule(rule.rulerRule) && Boolean(rule.rulerRule.grafana_alert.provenance)\<close>.
  The right operand is evaluated only when the guard holds.
\<close>

definition ruleIsProvisioned :: "'g CombinedRule \<Rightarrow> error + bool" where
  "ruleIsProvisioned rule =
    (if isGrafanaRulerRule (rulerRule rule)
     then (case grafana_alert_provenance (rulerRule rule) of
             Inl e \<Rightarrow> Inl e
           | Inr p \<Rightarrow> Inr (Boolean p))
     else Inr False)"

definition useAllAlertRuleAbilities ::
  "'g Collaborators \<Rightarrow> 'g CombinedRule \<Rightarrow> error + AlertRuleAction Abilities" where
  "useAllAlertRuleAbilities ctx rule =
    (let rulesSource = CombinedRuleNamespace.rulesSource (namespace rule);
         rulesSourceName = rulesSourceNameOf rulesSource
     in case ruleIsProvisioned rule of
          Inl e \<Rightarrow> Inl e
        | Inr isProvisioned \<Rightarrow>
          let isFederated = isFederatedRuleGroup ctx (group rule);
              immutableRule = (isProvisioned \<or> isFederated);
              editable = useIsRuleEditable ctx rulesSourceName (rulerRule rule);
              isEditable = IsRuleEditableResult.isEditable editable;
              isRemovable = IsRuleEditableResult.isRemovable editable;
              isRulerAvailable = nullish (IsRuleEditableResult.isRulerAvailable editable) False;
              loading = IsRuleEditableResult.loading editable;
              exportAllowed = snd (useAlertingAbility ctx ExportGrafanaManagedRules);
              MaybeSupported = (if loading then NotSupported else isRulerAvailable);
              MaybeSupportedUnlessImmutable =
                (if immutableRule then NotSupported else MaybeSupported);
              rulesPermissions = getRulesPermissions ctx rulesSourceName;
              canSilence = useCanSilence ctx rulesSource
          in Inr (\<lambda>action. case action of
                Duplicate \<Rightarrow> toAbility ctx MaybeSupported (create rulesPermissions)
              | View \<Rightarrow> toAbility ctx AlwaysSupported (read rulesPermissions)
              | Update \<Rightarrow> (MaybeSupportedUnlessImmutable, nullish isEditable False)
              | Delete \<Rightarrow> (MaybeSupportedUnlessImmutable, nullish isRemovable False)
              | Explore \<Rightarrow> toAbility ctx AlwaysSupported DataSourcesExplore
              | Silence \<Rightarrow> canSilence
              | ModifyExport \<Rightarrow> (MaybeSupported, exportAllowed)))"

text \<open>
  What lines 152 to 157 destructure: the result of \<open>useIsRuleEditable\<close> for the rule.
\<close>

definition rule_editability :: "'g Collaborators \<Rightarrow> 'g CombinedRule \<Rightarrow> IsRuleEditableResult" where
  "rule_editability ctx rule =
    useIsRuleEditable ctx (rulesSourceNameOf (rulesSource (namespace rule))) (rulerRule rule)"

definition useAlertRuleAbility ::
  "'g Collaborators \<Rightarrow> 'g CombinedRule \<Rightarrow> AlertRuleAction \<Rightarrow> error + Ability" where
  "useAlertRuleAbility ctx rule action =
    (case useAllAlertRuleAbilities ctx rule of
       Inl e \<Rightarrow> Inl e
     | Inr abilities \<Rightarrow> Inr (abilities action))"

definition useAllAlertmanagerAbilities :: "'g Collaborators \<Rightarrow> AlertmanagerAction Abilities" where
  "useAllAlertmanagerAbilities ctx =
    (let selectedAlertmanager = AlertmanagerContext.selectedAlertmanager (useAlertmanager ctx);
         hasConfigurationAPI = AlertmanagerContext.hasConfigurationAPI (useAlertmanager ctx);
         isGrafanaFlavoredAlertmanager = AlertmanagerContext.isGrafanaAlertmanager (useAlertmanager ctx);
         notificationsPermissions = getNotificationsPermissions ctx selectedAlertmanager;
         instancePermissions = getInstancesPermissions ctx selectedAlertmanager
     in (\<lambda>action. case action of
        ViewExternalConfiguration \<Rightarrow>
          toAbility ctx AlwaysSupported AlertingNotificationsExternalRead
      | UpdateExternalConfiguration \<Rightarrow>
          toAbility ctx hasConfigurationAPI AlertingNotificationsExternalWrite
      | CreateContactPoint \<Rightarrow> toAbility ctx hasConfigurationAPI (create notificationsPermissions)
      | ViewContactPoint \<Rightarrow> toAbility ctx AlwaysSupported (read notificationsPermissions)
      | UpdateContactPoint \<Rightarrow> toAbility ctx hasConfigurationAPI (update notificationsPermissions)
      | DeleteContactPoint \<Rightarrow> toAbility ctx hasConfigurationAPI (delete notificationsPermissions)
      | ExportContactPoint \<Rightarrow>
          toAbility ctx isGrafanaFlavoredAlertmanager (read notificationsPermissions)
      | CreateNotificationTemplate \<Rightarrow>
          toAbility ctx hasConfigurationAPI (create notificationsPermissions)
      | ViewNotificationTemplate \<Rightarrow> toAbility ctx AlwaysSupported (read notificationsPermissions)
      | UpdateNotificationTemplate \<Rightarrow>
          toAbility ctx hasConfigurationAPI (update notificationsPermissions)
      | DeleteNotificationTemplate \<Rightarrow>
          toAbility ctx hasConfigurationAPI (delete notificationsPermissions)
      | CreateNotificationPolicy \<Rightarrow>
          toAbility ctx hasConfigurationAPI (create notificationsPermissions)
      | ViewNotificationPolicyTree \<Rightarrow>
          toAbility ctx AlwaysSupported (read notificationsPermissions)
      | UpdateNotificationPolicyTree \<Rightarrow>
          toAbility ctx hasConfigurationAPI (update notificationsPermissions)
      | DeleteNotificationPolicy \<Rightarrow>
          toAbility ctx hasConfigurationAPI (delete notificationsPermissions)
      | ExportNotificationPolicies \<Rightarrow>
          toAbility ctx isGrafanaFlavoredAlertmanager (read notificationsPermissions)
      | DecryptSecrets \<Rightarrow>
          toAbility ctx isGrafanaFlavoredAlertmanager
            (readSecrets (provisioning notificationsPermissions))
      | CreateSilence \<Rightarrow> toAbility ctx hasConfigurationAPI (create instancePermissions)
      | ViewSilence \<Rightarrow> toAbility ctx AlwaysSupported (read instancePermissions)
      | UpdateSilence \<Rightarrow> toAbility ctx hasConfigurationAPI (update instancePermissions)
      | CreateMuteTiming \<Rightarrow> toAbility ctx hasConfigurationAPI (create notificationsPermissions)
      | ViewMuteTiming \<Rightarrow> toAbility ctx AlwaysSupported (read notificationsPermissions)
      | UpdateMuteTiming \<Rightarrow> toAbility ctx hasConfigurationAPI (update notificationsPermissions)
      | DeleteMuteTiming \<Rightarrow> toAbility ctx hasConfigurationAPI (delete notificationsPermissions)))"

definition useAlertmanagerAbility :: "'g Collaborators \<Rightarrow> AlertmanagerAction \<Rightarrow> Ability" where
  "useAlertmanagerAbility ctx action = (let abilities = useAllAlertmanagerAbilities ctx in abilities action)"

section \<open>Public dashboard configuration (ConfigPublicDashboard.tsx)\<close>

text \<open>
  Modelled from the spec: the interface \<open>PublicDashboard\<close> (SharePublicDashboardUtils) is
  not among the sources, and the spec does not describe it. The payload is built with an
  object spread, which copies whatever own properties the object has, so an object is a
  map from property names to values.
\<close>

datatype JsValue =
    JsUndefined
  | JsNull
  | JsBoolean bool
  | JsNumber int
  | JsString string
  | JsArray "JsValue list"
  | JsObject "(string \<times> JsValue) list"

type_synonym PublicDashboard = "string \<rightharpoonup> JsValue"

record ConfigPublicDashboardForm =
  isAnnotationsEnabled :: bool
  isTimeSelectionEnabled :: bool
  isPaused :: bool

text \<open>The props that \<open>onPublicDashboardUpdate\<close> closes over; \<open>publicDashboard\<close> is optional.\<close>

record 'd Props =
  publicDashboard :: "PublicDashboard option"
  dashboard :: 'd

text \<open>The argument of the \<open>update\<close> mutation: \<open>{ dashboard, payload }\<close>.\<close>

record 'd UpdateRequest =
  dashboard :: 'd
  payload :: PublicDashboard

text \<open>
  \<open>{ ...obj }\<close>: the own properties of the object; spreading \<open>undefined\<close> copies nothing
  (the \<open>!\<close> of \<open>publicDashboard!\<close> is erased at run time).
\<close>

fun spread :: "PublicDashboard option \<Rightarrow> PublicDashboard" where
  "spread None = Map.empty"
| "spread (Some obj) = obj"

text \<open>
  \<open>onPublicDashboardUpdate\<close> calls \<open>update\<close> once; the model returns the argument of that
  call. In the object literal the three named properties come after the spread and
  override the copied ones.
\<close>

definition onPublicDashboardUpdate ::
  "'d Props \<Rightarrow> ConfigPublicDashboardForm \<Rightarrow> 'd UpdateRequest" where
  "onPublicDashboardUpdate props values =
    (let isAnnotationsEnabled = ConfigPublicDashboardForm.isAnnotationsEnabled values;
         isTimeSelectionEnabled = ConfigPublicDashboardForm.isTimeSelectionEnabled values;
         isPaused = ConfigPublicDashboardForm.isPaused values
     in \<lparr> dashboard = Props.dashboard props,
          payload = (spread (publicDashboard props))
            (''annotationsEnabled'' \<mapsto> JsBoolean isAnnotationsEnabled,
             ''timeSelectionEnabled'' \<mapsto> JsBoolean isTimeSelectionEnabled,
             ''isEnabled'' \<mapsto> JsBoolean (\<not> isPaused)) \<rparr>)"

section \<open>Example inputs\<close>

text \<open>
  Concrete contexts, rules and dashboards on which the theorems below are instantiated.
  In the example contexts the rule group is its own federation flag.
\<close>

definition permit_all :: "AccessControlAction \<Rightarrow> bool" where
  "permit_all action = True"

definition only_create_silence :: "AccessControlAction \<Rightarrow> bool" where
  "only_create_silence action = (action = AlertingInstanceCreate)"

definition example_context ::
  "(AccessControlAction \<Rightarrow> bool) \<Rightarrow> IsRuleEditableResult \<Rightarrow> ChoiceStatusQuery \<Rightarrow>
   AlertmanagerContext \<Rightarrow> bool Collaborators" where
  "example_context permitted editable query alertmanager =
    \<lparr> hasPermission = permitted,
      getRulesPermissions = (\<lambda>_. \<lparr> read = AlertingRuleRead, create = AlertingRuleCreate,
        update = AlertingRuleUpdate, delete = AlertingRuleDelete \<rparr>),
      getNotificationsPermissions = (\<lambda>_. \<lparr> read = AlertingNotificationsExternalRead,
        create = AlertingNotificationsExternalWrite,
        update = AlertingNotificationsExternalWrite,
        delete = AlertingNotificationsExternalWrite,
        provisioning = \<lparr> readSecrets = OtherAccessControlAction ''readSecrets'' \<rparr> \<rparr>),
      getInstancesPermissions = (\<lambda>_. \<lparr> read = OtherAccessControlAction ''instances.read'',
        create = AlertingInstanceCreate,
        update = OtherAccessControlAction ''instances.update'',
        delete = OtherAccessControlAction ''instances.delete'' \<rparr>),
      GRAFANA_RULES_SOURCE_NAME = ''grafana'',
      isFederatedRuleGroup = (\<lambda>federated. federated),
      useIsRuleEditable = (\<lambda>_ _. editable),
      useGetAlertmanagerChoiceStatusQuery = (\<lambda>skip. query),
      useAlertmanager = alertmanager \<rparr>"

definition example_alertmanager :: AlertmanagerContext where
  "example_alertmanager =
    \<lparr> selectedAlertmanager = Some ''grafana'', hasConfigurationAPI = True,
      isGrafanaAlertmanager = True \<rparr>"

definition choice_query :: "AlertmanagerChoice \<Rightarrow> ChoiceStatusQuery" where
  "choice_query choice =
    \<lparr> currentData = Some \<lparr> alertmanagersChoice = choice \<rparr>, isLoading = False \<rparr>"

definition loading_query :: ChoiceStatusQuery where
  "loading_query = \<lparr> currentData = None, isLoading = True \<rparr>"

definition ruler_available_loading :: IsRuleEditableResult where
  "ruler_available_loading =
    \<lparr> isEditable = Some True, isRemovable = Some True, isRulerAvailable = Some True,
      loading = True \<rparr>"

definition ruler_available_loaded :: IsRuleEditableResult where
  "ruler_available_loaded =
    \<lparr> isEditable = Some True, isRemovable = Some True, isRulerAvailable = Some True,
      loading = False \<rparr>"

definition all_absent :: IsRuleEditableResult where
  "all_absent =
    \<lparr> isEditable = None, isRemovable = None, isRulerAvailable = None, loading = False \<rparr>"

definition provisioned_rule :: "bool CombinedRule" where
  "provisioned_rule =
    \<lparr> namespace = \<lparr> rulesSource = RulesSourceString ''grafana'' \<rparr>,
      rulerRule = Some (RulerGrafanaRuleDTO \<lparr> provenance = Some ''api'' \<rparr>),
      group = False \<rparr>"

definition bare_rule :: "bool CombinedRule" where
  "bare_rule =
    \<lparr> namespace = \<lparr> rulesSource = RulesSourceString ''grafana'' \<rparr>,
      rulerRule = None, group = False \<rparr>"

definition external_rule :: "bool CombinedRule" where
  "external_rule =
    \<lparr> namespace = \<lparr> rulesSource =
        RulesSourceSettings (DataSourceInstanceSettings ''mimir'') \<rparr>,
      rulerRule = Some RulerCloudRuleDTO, group = False \<rparr>"

definition example_dashboard :: PublicDashboard where
  "example_dashboard =
    [''uid'' \<mapsto> JsString ''pd-1'',
     ''accessToken'' \<mapsto> JsString ''token'',
     ''dashboardUid'' \<mapsto> JsString ''dash-1'',
     ''annotationsEnabled'' \<mapsto> JsBoolean False,
     ''timeSelectionEnabled'' \<mapsto> JsBoolean False,
     ''isEnabled'' \<mapsto> JsBoolean True]"

definition example_props :: "nat Props" where
  "example_props = \<lparr> publicDashboard = Some example_dashboard, dashboard = 7 \<rparr>"

definition example_form :: ConfigPublicDashboardForm where
  "example_form =
    \<lparr> isAnnotationsEnabled = True, isTimeSelectionEnabled = False, isPaused = True \<rparr>"

lemmas example_defs =
  permit_all_def only_create_silence_def example_context_def example_alertmanager_def
  choice_query_def loading_query_def ruler_available_loading_def ruler_available_loaded_def
  all_absent_def provisioned_rule_def bare_rule_def external_rule_def

section \<open>Properties of the alert rule abilities\<close>

text \<open>
  The guard of line 145 protects the property read behind it: computing \<open>isProvisioned\<close>
  never throws, whatever the rule.
\<close>

lemma ruleIsProvisioned_returns: "\<exists>b. ruleIsProvisioned rule = Inr b"
proof (cases "rulerRule rule")
  case None
  then show ?thesis by (auto simp: ruleIsProvisioned_def)
next
  case (Some r)
  then show ?thesis by (cases r) (auto simp: ruleIsProvisioned_def)
qed

text \<open>Line 173: the Silence entry of the table is the result of \<open>useCanSilence\<close>.\<close>

lemma silence_entry:
  "\<exists>abilities. useAllAlertRuleAbilities ctx rule = Inr abilities
     \<and> abilities Silence = useCanSilence ctx (rulesSource (namespace rule))"
proof -
  obtain b where "ruleIsProvisioned rule = Inr b"
    using ruleIsProvisioned_returns by blast
  then show ?thesis
    by (simp add: useAllAlertRuleAbilities_def Let_def)
qed

text \<open>
  C1 (amended). For every alert rule that is provisioned or federated,
  \<open>useAllAlertRuleAbilities\<close> returns a table in which Update and Delete have
  supported = false, whatever the ruler availability and the loading flag. The supported
  component of ModifyExport is not gated by immutability: it is \<open>MaybeSupported\<close>, that is
  false while the rule-editability collaborator is loading, and otherwise
  \<open>isRulerAvailable\<close> (false when absent).
\<close>

theorem immutable_rule_abilities:
  fixes ctx :: "'g Collaborators" and rule :: "'g CombinedRule"
  assumes "ruleIsProvisioned rule = Inr True \<or> isFederatedRuleGroup ctx (group rule)"
  shows "\<exists>abilities. useAllAlertRuleAbilities ctx rule = Inr abilities
     \<and> fst (abilities Update) = False
     \<and> fst (abilities Delete) = False
     \<and> fst (abilities ModifyExport) =
         (if loading (rule_editability ctx rule) then False
          else nullish (isRulerAvailable (rule_editability ctx rule)) False)"
proof -
  obtain b where b: "ruleIsProvisioned rule = Inr b"
    using ruleIsProvisioned_returns by blast
  with assms have "b \<or> isFederatedRuleGroup ctx (group rule)"
    by auto
  with b show ?thesis
    by (auto simp: useAllAlertRuleAbilities_def rule_editability_def Let_def NotSupported_def)
qed

text \<open>
  C1, witness: a provisioned Grafana rule, ruler available and nothing loading. Update
  and Delete are unsupported, ModifyExport is supported.
\<close>

theorem immutable_rule_abilities_witness:
  "(ruleIsProvisioned provisioned_rule = Inr True
     \<or> isFederatedRuleGroup
          (example_context permit_all ruler_available_loaded (choice_query ChoiceInternal)
             example_alertmanager) (group provisioned_rule))
   \<and> (\<exists>abilities.
     useAllAlertRuleAbilities
       (example_context permit_all ruler_available_loaded (choice_query ChoiceInternal)
          example_alertmanager) provisioned_rule = Inr abilities
     \<and> fst (abilities Update) = False
     \<and> fst (abilities Delete) = False
     \<and> fst (abilities ModifyExport) = True)"
  using immutable_rule_abilities [of provisioned_rule
      "example_context permit_all ruler_available_loaded (choice_query ChoiceInternal)
         example_alertmanager"]
  by (simp add: example_defs ruleIsProvisioned_def rule_editability_def)

text \<open>
  C1, counterexample to "ModifyExport is governed solely by ruler availability": the
  same provisioned rule in two contexts that both report \<open>isRulerAvailable = true\<close> and
  differ only in the loading flag. ModifyExport is unsupported while loading and
  supported afterwards.
\<close>

theorem modify_export_depends_on_loading:
  "ruleIsProvisioned provisioned_rule = Inr True
   \<and> isRulerAvailable ruler_available_loading = Some True
   \<and> useAlertRuleAbility
       (example_context permit_all ruler_available_loading (choice_query ChoiceInternal)
          example_alertmanager) provisioned_rule ModifyExport = Inr (False, True)
   \<and> isRulerAvailable ruler_available_loaded = Some True
   \<and> useAlertRuleAbility
       (example_context permit_all ruler_available_loaded (choice_query ChoiceInternal)
          example_alertmanager) provisioned_rule ModifyExport = Inr (True, True)"
  by (simp add: example_defs ruleIsProvisioned_def useAlertRuleAbility_def
      useAllAlertRuleAbilities_def useAlertingAbility_def useAlertingAbilities_def
      toAbility_def NotSupported_def AlwaysSupported_def Let_def)

text \<open>
  C2. For every alert rule, if \<open>useIsRuleEditable\<close> reports loading = true, the returned
  table has supported = false for Duplicate, Update, Delete and ModifyExport, whatever
  \<open>isRulerAvailable\<close>, the provenance and the federation flag are.
\<close>

theorem loading_rule_abilities_unsupported:
  fixes ctx :: "'g Collaborators" and rule :: "'g CombinedRule"
  assumes "loading (rule_editability ctx rule)"
  shows "\<exists>abilities. useAllAlertRuleAbilities ctx rule = Inr abilities
     \<and> fst (abilities Duplicate) = False
     \<and> fst (abilities Update) = False
     \<and> fst (abilities Delete) = False
     \<and> fst (abilities ModifyExport) = False"
proof -
  obtain b where b: "ruleIsProvisioned rule = Inr b"
    using ruleIsProvisioned_returns by blast
  with assms show ?thesis
    by (simp add: useAllAlertRuleAbilities_def rule_editability_def Let_def NotSupported_def
        toAbility_def)
qed

text \<open>C2, witness: ruler available, rule mutable, but the collaborator still loading.\<close>

theorem loading_rule_abilities_unsupported_witness:
  "loading (rule_editability
      (example_context permit_all ruler_available_loading (choice_query ChoiceInternal)
         example_alertmanager) bare_rule)
   \<and> (\<exists>abilities.
     useAllAlertRuleAbilities
       (example_context permit_all ruler_available_loading (choice_query ChoiceInternal)
          example_alertmanager) bare_rule = Inr abilities
     \<and> fst (abilities Duplicate) = False
     \<and> fst (abilities Update) = False
     \<and> fst (abilities Delete) = False
     \<and> fst (abilities ModifyExport) = False)"
  using loading_rule_abilities_unsupported [of
      "example_context permit_all ruler_available_loading (choice_query ChoiceInternal)
         example_alertmanager" bare_rule]
  by (simp add: example_defs rule_editability_def)

text \<open>
  C3. For every alert rule whose source is not the built-in rule engine (it is not the
  string \<open>GRAFANA_RULES_SOURCE_NAME\<close>), and for every rule while the alertmanager-choice
  query reports \<open>isLoading\<close>, \<open>useCanSilence\<close> returns the pair (false, false), and that pair
  is the Silence entry of the table.
\<close>

theorem silence_not_grafana_or_loading:
  fixes ctx :: "'g Collaborators" and rule :: "'g CombinedRule"
  assumes "rulesSource (namespace rule) \<noteq> RulesSourceString (GRAFANA_RULES_SOURCE_NAME ctx)
     \<or> isLoading (useGetAlertmanagerChoiceStatusQuery ctx
          (rulesSource (namespace rule) \<noteq> RulesSourceString (GRAFANA_RULES_SOURCE_NAME ctx)))"
  shows "useCanSilence ctx (rulesSource (namespace rule)) = (False, False)
     \<and> (\<exists>abilities. useAllAlertRuleAbilities ctx rule = Inr abilities
          \<and> abilities Silence = (False, False))"
proof -
  from assms have "useCanSilence ctx (rulesSource (namespace rule)) = (False, False)"
    by (auto simp: useCanSilence_def Let_def)
  with silence_entry [of ctx rule] show ?thesis
    by auto
qed

text \<open>
  C3, witness: a rule of an external data source with the query loaded, and a Grafana
  rule with the query loading; the user holds every permission.
\<close>

theorem silence_not_grafana_or_loading_witness:
  "rulesSource (namespace external_rule) \<noteq> RulesSourceString ''grafana''
   \<and> useCanSilence
     (example_context permit_all ruler_available_loaded (choice_query ChoiceInternal)
        example_alertmanager) (rulesSource (namespace external_rule)) = (False, False)
   \<and> useAlertRuleAbility
     (example_context permit_all ruler_available_loaded (choice_query ChoiceInternal)
        example_alertmanager) external_rule Silence = Inr (False, False)
   \<and> isLoading loading_query
   \<and> useCanSilence
     (example_context permit_all ruler_available_loaded loading_query example_alertmanager)
     (rulesSource (namespace bare_rule)) = (False, False)
   \<and> useAlertRuleAbility
     (example_context permit_all ruler_available_loaded loading_query example_alertmanager)
     bare_rule Silence = Inr (False, False)"
  using
    silence_not_grafana_or_loading [of external_rule
      "example_context permit_all ruler_available_loaded (choice_query ChoiceInternal)
         example_alertmanager"]
    silence_not_grafana_or_loading [of bare_rule
      "example_context permit_all ruler_available_loaded loading_query example_alertmanager"]
  by (auto simp: example_defs useAlertRuleAbility_def)

text \<open>
  C4. For a rule of the built-in engine whose alertmanager-choice query has finished
  loading with a routing choice, the supported component of the Silence entry (the
  result of \<open>useCanSilence\<close>) is false for the choice External and true for the choices
  All and Internal; it is \<open>!interactsOnlyWithExternalAMs || interactsWithAll\<close>.
\<close>

theorem silence_supported_by_choice:
  fixes ctx :: "'g Collaborators" and rule :: "'g CombinedRule"
  assumes "rulesSource (namespace rule) = RulesSourceString (GRAFANA_RULES_SOURCE_NAME ctx)"
    and "\<not> isLoading (useGetAlertmanagerChoiceStatusQuery ctx False)"
    and "currentData (useGetAlertmanagerChoiceStatusQuery ctx False) = Some status"
  shows "\<exists>abilities. useAllAlertRuleAbilities ctx rule = Inr abilities
     \<and> abilities Silence = useCanSilence ctx (rulesSource (namespace rule))
     \<and> fst (abilities Silence) =
          (case alertmanagersChoice status of
             ChoiceExternal \<Rightarrow> False
           | ChoiceAll \<Rightarrow> True
           | ChoiceInternal \<Rightarrow> True)
     \<and> fst (abilities Silence) =
          (\<not> (alertmanagersChoice status = ChoiceExternal)
           \<or> alertmanagersChoice status = ChoiceAll)"
proof -
  from assms have "fst (useCanSilence ctx (rulesSource (namespace rule))) =
      (alertmanagersChoice status \<noteq> ChoiceExternal)"
    by (cases "alertmanagersChoice status")
      (simp_all add: useCanSilence_def Let_def toAbility_def)
  with silence_entry [of ctx rule] show ?thesis
    by (cases "alertmanagersChoice status") auto
qed

text \<open>C4, witness: the three routing choices, for a rule of the Grafana rules source.\<close>

theorem silence_supported_by_choice_witness:
  "(\<exists>abilities.
      useAllAlertRuleAbilities
        (example_context permit_all ruler_available_loaded (choice_query ChoiceExternal)
           example_alertmanager) bare_rule = Inr abilities
      \<and> fst (abilities Silence) = False)
   \<and> (\<exists>abilities.
      useAllAlertRuleAbilities
        (example_context permit_all ruler_available_loaded (choice_query ChoiceAll)
           example_alertmanager) bare_rule = Inr abilities
      \<and> fst (abilities Silence) = True)
   \<and> (\<exists>abilities.
      useAllAlertRuleAbilities
        (example_context permit_all ruler_available_loaded (choice_query ChoiceInternal)
           example_alertmanager) bare_rule = Inr abilities
      \<and> fst (abilities Silence) = True)"
  using
    silence_supported_by_choice [of bare_rule
      "example_context permit_all ruler_available_loaded (choice_query ChoiceExternal)
         example_alertmanager" "\<lparr> alertmanagersChoice = ChoiceExternal \<rparr>"]
    silence_supported_by_choice [of bare_rule
      "example_context permit_all ruler_available_loaded (choice_query ChoiceAll)
         example_alertmanager" "\<lparr> alertmanagersChoice = ChoiceAll \<rparr>"]
    silence_supported_by_choice [of bare_rule
      "example_context permit_all ruler_available_loaded (choice_query ChoiceInternal)
         example_alertmanager" "\<lparr> alertmanagersChoice = ChoiceInternal \<rparr>"]
  by (auto simp: example_defs)

text \<open>
  C9. For a rule of the built-in engine, with the alertmanager-choice query loaded and
  the routing choice External, \<open>useCanSilence\<close> returns
  (false, hasPermission(AlertingInstanceCreate)), and that is the Silence entry: the
  allowed component is the permission check, not a forced false.
\<close>

theorem silence_external_only_keeps_permission:
  fixes ctx :: "'g Collaborators" and rule :: "'g CombinedRule"
  assumes "rulesSource (namespace rule) = RulesSourceString (GRAFANA_RULES_SOURCE_NAME ctx)"
    and "\<not> isLoading (useGetAlertmanagerChoiceStatusQuery ctx False)"
    and "currentData (useGetAlertmanagerChoiceStatusQuery ctx False) = Some status"
    and "alertmanagersChoice status = ChoiceExternal"
  shows "useCanSilence ctx (rulesSource (namespace rule))
       = (False, hasPermission ctx AlertingInstanceCreate)
     \<and> (\<exists>abilities. useAllAlertRuleAbilities ctx rule = Inr abilities
          \<and> abilities Silence = (False, hasPermission ctx AlertingInstanceCreate))"
proof -
  from assms have "useCanSilence ctx (rulesSource (namespace rule))
      = (False, hasPermission ctx AlertingInstanceCreate)"
    by (simp add: useCanSilence_def Let_def toAbility_def)
  with silence_entry [of ctx rule] show ?thesis
    by auto
qed

text \<open>
  C9, witness: a user who holds the create-silence permission, routing choice External:
  the pair is (false, true).
\<close>

theorem silence_external_only_keeps_permission_witness:
  "hasPermission
     (example_context only_create_silence ruler_available_loaded (choice_query ChoiceExternal)
        example_alertmanager) AlertingInstanceCreate
   \<and> useCanSilence
     (example_context only_create_silence ruler_available_loaded (choice_query ChoiceExternal)
        example_alertmanager) (rulesSource (namespace bare_rule)) = (False, True)
   \<and> (\<exists>abilities.
      useAllAlertRuleAbilities
        (example_context only_create_silence ruler_available_loaded
           (choice_query ChoiceExternal) example_alertmanager) bare_rule = Inr abilities
      \<and> abilities Silence = (False, True))"
  using silence_external_only_keeps_permission [of bare_rule
      "example_context only_create_silence ruler_available_loaded (choice_query ChoiceExternal)
         example_alertmanager" "\<lparr> alertmanagersChoice = ChoiceExternal \<rparr>"]
  by (simp add: example_defs)

text \<open>
  C7. For every alert rule the resolution returns a table (it never throws, also when
  \<open>rulerRule\<close> and the optional fields of the collaborators are absent); when \<open>isEditable\<close>
  is absent the allowed component of Update is false, and when \<open>isRemovable\<close> is absent the
  allowed component of Delete is false.
\<close>

theorem absent_flags_default_to_false:
  fixes ctx :: "'g Collaborators" and rule :: "'g CombinedRule"
  shows "\<exists>abilities. useAllAlertRuleAbilities ctx rule = Inr abilities
     \<and> (isEditable (rule_editability ctx rule) = None \<longrightarrow> snd (abilities Update) = False)
     \<and> (isRemovable (rule_editability ctx rule) = None \<longrightarrow> snd (abilities Delete) = False)"
proof -
  obtain b where b: "ruleIsProvisioned rule = Inr b"
    using ruleIsProvisioned_returns by blast
  then show ?thesis
    by (simp add: useAllAlertRuleAbilities_def rule_editability_def Let_def)
qed

text \<open>
  C7, witness: a rule without \<open>rulerRule\<close>, and a collaborator result in which
  \<open>isEditable\<close>, \<open>isRemovable\<close> and \<open>isRulerAvailable\<close> are all absent.
\<close>

theorem absent_flags_default_to_false_witness:
  "isEditable (rule_editability
      (example_context permit_all all_absent (choice_query ChoiceInternal) example_alertmanager)
      bare_rule) = None
   \<and> isRemovable (rule_editability
      (example_context permit_all all_absent (choice_query ChoiceInternal) example_alertmanager)
      bare_rule) = None
   \<and> (\<exists>abilities.
     useAllAlertRuleAbilities
       (example_context permit_all all_absent (choice_query ChoiceInternal) example_alertmanager)
       bare_rule = Inr abilities
     \<and> snd (abilities Update) = False
     \<and> snd (abilities Delete) = False)"
  using absent_flags_default_to_false [of
      "example_context permit_all all_absent (choice_query ChoiceInternal) example_alertmanager"
      bare_rule]
  by (simp add: example_defs rule_editability_def)

section \<open>Properties of the alertmanager abilities\<close>

text \<open>
  C5. For every alertmanager context, each create, update and delete action (update
  external configuration; create, update, delete contact point; create, update, delete
  notification template; create, update, delete notification policy; create, update
  silence; create, update, delete mute timing) has supported equal to
  \<open>hasConfigurationAPI\<close>, whatever \<open>isGrafanaAlertmanager\<close> is.
\<close>

theorem write_actions_supported_iff_configuration_api:
  fixes ctx :: "'g Collaborators"
  shows "fst (useAllAlertmanagerAbilities ctx UpdateExternalConfiguration)
       = hasConfigurationAPI (useAlertmanager ctx)
   \<and> fst (useAllAlertmanagerAbilities ctx CreateContactPoint)
       = hasConfigurationAPI (useAlertmanager ctx)
   \<and> fst (useAllAlertmanagerAbilities ctx UpdateContactPoint)
       = hasConfigurationAPI (useAlertmanager ctx)
   \<and> fst (useAllAlertmanagerAbilities ctx DeleteContactPoint)
       = hasConfigurationAPI (useAlertmanager ctx)
   \<and> fst (useAllAlertmanagerAbilities ctx CreateNotificationTemplate)
       = hasConfigurationAPI (useAlertmanager ctx)
   \<and> fst (useAllAlertmanagerAbilities ctx UpdateNotificationTemplate)
       = hasConfigurationAPI (useAlertmanager ctx)
   \<and> fst (useAllAlertmanagerAbilities ctx DeleteNotificationTemplate)
       = hasConfigurationAPI (useAlertmanager ctx)
   \<and> fst (useAllAlertmanagerAbilities ctx CreateNotificationPolicy)
       = hasConfigurationAPI (useAlertmanager ctx)
   \<and> fst (useAllAlertmanagerAbilities ctx UpdateNotificationPolicyTree)
       = hasConfigurationAPI (useAlertmanager ctx)
   \<and> fst (useAllAlertmanagerAbilities ctx DeleteNotificationPolicy)
       = hasConfigurationAPI (useAlertmanager ctx)
   \<and> fst (useAllAlertmanagerAbilities ctx CreateSilence)
       = hasConfigurationAPI (useAlertmanager ctx)
   \<and> fst (useAllAlertmanagerAbilities ctx UpdateSilence)
       = hasConfigurationAPI (useAlertmanager ctx)
   \<and> fst (useAllAlertmanagerAbilities ctx CreateMuteTiming)
       = hasConfigurationAPI (useAlertmanager ctx)
   \<and> fst (useAllAlertmanagerAbilities ctx UpdateMuteTiming)
       = hasConfigurationAPI (useAlertmanager ctx)
   \<and> fst (useAllAlertmanagerAbilities ctx DeleteMuteTiming)
       = hasConfigurationAPI (useAlertmanager ctx)"
  by (simp add: useAllAlertmanagerAbilities_def toAbility_def Let_def)

text \<open>
  C6. For every alertmanager context, ExportContactPoint, ExportNotificationPolicies and
  DecryptSecrets have supported equal to \<open>isGrafanaAlertmanager\<close> (so false whenever
  it is false), whatever \<open>hasConfigurationAPI\<close> is.
\<close>

theorem export_decrypt_supported_iff_grafana_flavored:
  fixes ctx :: "'g Collaborators"
  shows "fst (useAllAlertmanagerAbilities ctx ExportContactPoint)
       = isGrafanaAlertmanager (useAlertmanager ctx)
   \<and> fst (useAllAlertmanagerAbilities ctx ExportNotificationPolicies)
       = isGrafanaAlertmanager (useAlertmanager ctx)
   \<and> fst (useAllAlertmanagerAbilities ctx DecryptSecrets)
       = isGrafanaAlertmanager (useAlertmanager ctx)"
  by (simp add: useAllAlertmanagerAbilities_def toAbility_def Let_def)

section \<open>Properties of the general alerting abilities\<close>

text \<open>
  C8. In the table of \<open>useAlertingAbilities\<close> each of the nine actions has supported =
  true, and its allowed component is \<open>hasPermission\<close> of the permission identifier that
  the table pairs with the action.
\<close>

theorem alerting_abilities_table:
  fixes ctx :: "'g Collaborators"
  shows "useAlertingAbilities ctx CreateAlertRule = (True, hasPermission ctx AlertingRuleCreate)
   \<and> useAlertingAbilities ctx ViewAlertRule = (True, hasPermission ctx AlertingRuleRead)
   \<and> useAlertingAbilities ctx UpdateAlertRule = (True, hasPermission ctx AlertingRuleUpdate)
   \<and> useAlertingAbilities ctx DeleteAlertRule = (True, hasPermission ctx AlertingRuleDelete)
   \<and> useAlertingAbilities ctx ExportGrafanaManagedRules
       = (True, hasPermission ctx AlertingRuleRead)
   \<and> useAlertingAbilities ctx CreateExternalAlertRule
       = (True, hasPermission ctx AlertingRuleExternalWrite)
   \<and> useAlertingAbilities ctx ViewExternalAlertRule
       = (True, hasPermission ctx AlertingRuleExternalRead)
   \<and> useAlertingAbilities ctx UpdateExternalAlertRule
       = (True, hasPermission ctx AlertingRuleExternalWrite)
   \<and> useAlertingAbilities ctx DeleteExternalAlertRule
       = (True, hasPermission ctx AlertingRuleExternalWrite)"
  by (simp add: useAlertingAbilities_def toAbility_def AlwaysSupported_def)

section \<open>Properties of the public dashboard update\<close>

text \<open>
  C10. For every public dashboard object and every form state, the payload handed to
  \<open>update\<close> is the public dashboard object with three properties replaced:
  \<open>annotationsEnabled\<close> and \<open>timeSelectionEnabled\<close> from the form and \<open>isEnabled\<close> the
  negation of the form's \<open>isPaused\<close>. Every other property (uid, accessToken and the
  rest) is the one of the public dashboard object.
\<close>

theorem update_payload_frame:
  fixes props :: "'d Props"
  assumes "publicDashboard props = Some pd"
  shows "payload (onPublicDashboardUpdate props values) =
      pd(''annotationsEnabled'' \<mapsto> JsBoolean (isAnnotationsEnabled values),
         ''timeSelectionEnabled'' \<mapsto> JsBoolean (isTimeSelectionEnabled values),
         ''isEnabled'' \<mapsto> JsBoolean (\<not> isPaused values))
     \<and> (\<forall>property.
          property \<notin> {''annotationsEnabled'', ''timeSelectionEnabled'', ''isEnabled''}
          \<longrightarrow> payload (onPublicDashboardUpdate props values) property = pd property)"
  using assms by (simp add: onPublicDashboardUpdate_def Let_def)

text \<open>
  C10, witness: an enabled public dashboard and a form that turns annotations on and
  pauses sharing.
\<close>

theorem update_payload_frame_witness:
  "publicDashboard example_props = Some example_dashboard
   \<and> payload (onPublicDashboardUpdate example_props example_form) =
     [''uid'' \<mapsto> JsString ''pd-1'',
      ''accessToken'' \<mapsto> JsString ''token'',
      ''dashboardUid'' \<mapsto> JsString ''dash-1'',
      ''annotationsEnabled'' \<mapsto> JsBoolean True,
      ''timeSelectionEnabled'' \<mapsto> JsBoolean False,
      ''isEnabled'' \<mapsto> JsBoolean False]
   \<and> payload (onPublicDashboardUpdate example_props example_form) ''uid''
       = Some (JsString ''pd-1'')
   \<and> payload (onPublicDashboardUpdate example_props example_form) ''accessToken''
       = Some (JsString ''token'')"
  using update_payload_frame [of example_props example_dashboard example_form]
  by (auto simp: example_props_def example_dashboard_def example_form_def fun_eq_iff)

end
